theory Spec2Isabelle
  imports Complex_Main "HOL-Library.AList"
begin

section \<open>Conventions of the embedding\<close>

text \<open>
  The program is \<^verbatim>\<open>src/trading.py\<close>. Its numbers are Python floats; they are modelled
  as exact reals, so rounding error, infinities and NaN are outside the model. A division
  whose divisor can be zero is written out as a branch of its own: dividing a Python
  float by zero raises \<^verbatim>\<open>ZeroDivisionError\<close>, and the model returns that error (or what
  the enclosing \<^verbatim>\<open>try\<close> turns it into). The global dictionary \<^verbatim>\<open>CONFIG\<close> is passed to
  every function as a record, with the keys the modelled functions read.
\<close>

datatype py_error = ZeroDivisionError | KeyError

datatype trading_type = Futures | Spot

text \<open>The strategy names \<^verbatim>\<open>'MOMENTUM'\<close> and \<^verbatim>\<open>'SWING'\<close>.\<close>

datatype strategy = MOMENTUM | SWING

record config =
  TRADING_TYPE :: trading_type
  INITIAL_BALANCE :: real
  LEVERAGE :: real
  RISK_PERCENT :: real
  MAX_SLIPPAGE :: real
  MAX_OPEN_ORDERS :: int
  MEMORY_LIMIT :: real
  VOLATILITY_FACTOR :: real
  PERFORMANCE_WINDOW :: int

text \<open>
  Python's \<^verbatim>\<open>xs[i:]\<close> for an integer \<^verbatim>\<open>i\<close>: a negative start counts from the end,
  and the start is clamped to the list.
\<close>

definition py_slice_from :: "int \<Rightarrow> 'a list \<Rightarrow> 'a list" where
  "py_slice_from i xs =
     (let n = int (length xs);
          j = (if i < 0 then max (i + n) 0 else min i n)
      in drop (nat j) xs)"

text \<open>\<^verbatim>\<open>np.mean\<close>; the source calls it on non-empty lists only.\<close>

definition np_mean :: "real list \<Rightarrow> real" where
  "np_mean xs = sum_list xs / real (length xs)"

section \<open>Trade records and the parameter optimizer\<close>

text \<open>
  A trade record is the dictionary \<^verbatim>\<open>_monitor_order\<close> appends to the trade history.
  The key \<^verbatim>\<open>'pnl'\<close> is optional: \<^verbatim>\<open>_monitor_order\<close> never sets it.
\<close>

record trade =
  trade_symbol :: string
  trade_side :: string
  trade_size :: real
  trade_price :: real
  trade_timestamp :: real
  trade_signal_type :: strategy
  trade_pnl :: "real option"

definition calculate_pnl :: "trade \<Rightarrow> real" where
  "calculate_pnl t = (case trade_pnl t of Some p \<Rightarrow> p | None \<Rightarrow> 0)"

text \<open>
  \<^verbatim>\<open>ParameterOptimizer.optimize_risk\<close>. \<^verbatim>\<open>len(profitable_trades) / len(recent)\<close>
  divides two Python integers and raises when \<^verbatim>\<open>recent\<close> is empty.
\<close>

definition optimize_risk :: "config \<Rightarrow> trade list \<Rightarrow> py_error + real" where
  "optimize_risk cfg recent_trades =
     (if length recent_trades < 10 then Inr (RISK_PERCENT cfg)
      else
        let recent = py_slice_from (- PERFORMANCE_WINDOW cfg) recent_trades;
            profitable_trades = filter (\<lambda>t. calculate_pnl t > 0) recent
        in if recent = [] then Inl ZeroDivisionError
           else
             let win_rate = real (length profitable_trades) / real (length recent);
                 avg_profit = (if profitable_trades \<noteq> []
                               then np_mean (map calculate_pnl profitable_trades) else 0);
                 losing_trades = filter (\<lambda>t. calculate_pnl t < 0) recent;
                 avg_loss = (if losing_trades \<noteq> []
                             then \<bar>np_mean (map calculate_pnl losing_trades)\<bar> else 1);
                 profit_loss_ratio = (if avg_loss > 0 then avg_profit / avg_loss else 1);
                 base_risk = RISK_PERCENT cfg
             in Inr (if win_rate > 0.7 \<and> profit_loss_ratio > 1.5
                     then min (base_risk * 1.2) 0.035
                     else if win_rate < 0.4 \<or> profit_loss_ratio < 0.8
                     then max (base_risk * 0.8) 0.015
                     else base_risk))"

subsection \<open>The risk policy in the specification's words\<close>

text \<open>
  The definitions of this subsection follow the specification, section 4.2, not the
  source; \<open>optimize_risk\<close> is compared with them below.
\<close>

definition spec_recent :: "nat \<Rightarrow> 'a list \<Rightarrow> 'a list" where
  \<comment> \<open>the most recent \<open>w\<close> entries of a history (all of it when it is shorter)\<close>
  "spec_recent w ts = drop (length ts - w) ts"

definition spec_mean :: "real list \<Rightarrow> real" where
  \<comment> \<open>arithmetic mean; the mean of no values is taken as 0\<close>
  "spec_mean xs = (if xs = [] then 0 else sum_list xs / real (length xs))"

definition spec_win_rate :: "trade list \<Rightarrow> real" where
  \<comment> \<open>fraction of the trades with positive PnL\<close>
  "spec_win_rate ts =
     real (length (filter (\<lambda>t. 0 < calculate_pnl t) ts)) / real (length ts)"

definition spec_profit_loss_ratio :: "trade list \<Rightarrow> real" where
  \<comment> \<open>mean profit of winners over mean absolute loss of losers, the latter 1 without losers\<close>
  "spec_profit_loss_ratio ts =
     (let winners = map calculate_pnl (filter (\<lambda>t. 0 < calculate_pnl t) ts);
          losses = map (\<lambda>t. \<bar>calculate_pnl t\<bar>) (filter (\<lambda>t. calculate_pnl t < 0) ts)
      in spec_mean winners / (if losses = [] then 1 else spec_mean losses))"

definition spec_adjust_risk :: "real \<Rightarrow> real \<Rightarrow> real \<Rightarrow> real" where
  "spec_adjust_risk base winRate ratio =
     (if winRate > 0.7 \<and> ratio > 1.5 then min (base * 1.2) 0.035
      else if winRate < 0.4 \<or> ratio < 0.8 then max (base * 0.8) 0.015
      else base)"

section \<open>Position sizing\<close>

text \<open>
  \<^verbatim>\<open>TRADE_SYMBOLS\<close> is the per-symbol table of the configuration file: a dictionary from
  the symbol to its settings. The two multiplier dictionaries are keyed by the strategy
  names, the only keys the program uses.
\<close>

record symbol_config =
  risk_weight :: real
  stop_multiplier :: "strategy \<Rightarrow> real"
  profit_multiplier :: "strategy \<Rightarrow> real"
  min_qty :: real
  max_position_usd :: real

type_synonym trade_symbols = "(string \<times> symbol_config) list"

text \<open>\<^verbatim>\<open>str.endswith\<close>.\<close>

definition endswith :: "string \<Rightarrow> string \<Rightarrow> bool" where
  "endswith s suffix =
     (length suffix \<le> length s \<and> drop (length s - length suffix) s = suffix)"

text \<open>
  \<^verbatim>\<open>round(x, ndigits)\<close> on exact numbers: to the nearest multiple of \<open>10 ^ - ndigits\<close>,
  a tie going to the even one.
\<close>

definition round_half_even :: "real \<Rightarrow> int" where
  "round_half_even y =
     (let f = \<lfloor>y\<rfloor>;
          d = y - of_int f
      in if d < 1 / 2 then f else if 1 / 2 < d then f + 1
         else if even f then f else f + 1)"

definition py_round :: "real \<Rightarrow> nat \<Rightarrow> real" where
  "py_round x ndigits = of_int (round_half_even (x * 10 ^ ndigits)) / 10 ^ ndigits"

text \<open>
  \<^verbatim>\<open>calculate_position_size\<close>. Every exception inside it is caught and turned into
  \<^verbatim>\<open>None\<close>: the \<^verbatim>\<open>ZeroDivisionError\<close> of \<open>optimize_risk\<close>, the \<^verbatim>\<open>KeyError\<close> of an
  unknown symbol, and the divisions by a zero price or a zero stop distance.
  \<^verbatim>\<open>trade_history\<close> defaults to \<^verbatim>\<open>None\<close>.
\<close>

definition calculate_position_size ::
  "config \<Rightarrow> trade_symbols \<Rightarrow> string \<Rightarrow> real \<Rightarrow> strategy \<Rightarrow> real \<Rightarrow> real
     \<Rightarrow> trade list option \<Rightarrow> real option" where
  "calculate_position_size cfg syms symbol balance signal_type atr price trade_history =
     (case (case trade_history of
              Some h \<Rightarrow> if h \<noteq> [] then optimize_risk cfg h else Inr (RISK_PERCENT cfg)
            | None \<Rightarrow> Inr (RISK_PERCENT cfg)) of
        Inl e \<Rightarrow> None
      | Inr risk_percent \<Rightarrow>
          (case map_of syms symbol of
             None \<Rightarrow> None
           | Some sc \<Rightarrow>
               if price = 0 then None
               else
                 let base_risk = balance * risk_percent * risk_weight sc;
                     volatility_adj = min (atr / price * 100) 5.0;
                     adjusted_risk = base_risk * (1 - volatility_adj * 0.1);
                     multiplier = stop_multiplier sc signal_type
                 in if multiplier * atr = 0 then None
                    else
                      let position_size = adjusted_risk / (multiplier * atr);
                          position_size = (if endswith symbol ''USDT''
                                           then position_size / price else position_size);
                          max_position = max_position_usd sc / price;
                          position_size = min position_size max_position
                      in if position_size < min_qty sc then None
                         else Some (py_round position_size 5)))"

section \<open>Signal generation\<close>

text \<open>
  The decorator \<^verbatim>\<open>system_guard\<close> reads the memory use and the number of threads of the
  process and returns \<^verbatim>\<open>None\<close> without calling the function when either is too high.
\<close>

record system_status =
  memory_percent :: real
  active_threads :: nat

definition system_guard :: "config \<Rightarrow> system_status \<Rightarrow> 'a option \<Rightarrow> 'a option" where
  "system_guard cfg sys func =
     (if memory_percent sys > MEMORY_LIMIT cfg then None
      else if active_threads sys > 15 then None
      else func)"

text \<open>
  A row of the indicator frame \<^verbatim>\<open>calculate_indicators\<close> returns, with the columns
  \<^verbatim>\<open>generate_signal\<close> reads. \<^verbatim>\<open>market_state\<close> holds one of the five labels of
  \<^verbatim>\<open>detect_market_regime\<close>.
\<close>

datatype market_regime = TRENDING | OVERSOLD | OVERBOUGHT | RANGING | UNKNOWN

record feature_row =
  row_close :: real
  row_momentum :: real
  row_rsi :: real
  row_atr :: real
  row_ema30 :: real
  row_ema50 :: real
  row_bb_upper :: real
  row_bb_lower :: real
  row_volume_ratio :: real
  row_market_state :: market_regime

text \<open>The signal dictionary; the key \<^verbatim>\<open>'signal'\<close> always holds \<^verbatim>\<open>'BUY'\<close>.\<close>

record signal =
  signal_symbol :: string
  signal_side :: string
  signal_type :: strategy
  signal_size :: real
  signal_price :: real
  signal_stop_loss :: real
  signal_take_profit :: real

text \<open>
  \<^verbatim>\<open>generate_signal\<close>. The frame is \<^verbatim>\<open>None\<close> or a list of rows, oldest first.
  \<^verbatim>\<open>not position_size\<close> holds for \<^verbatim>\<open>None\<close> and for a quantity of zero. Any exception
  (such as the \<^verbatim>\<open>KeyError\<close> of an unknown symbol) is caught and gives \<^verbatim>\<open>None\<close>.
\<close>

definition generate_signal ::
  "config \<Rightarrow> trade_symbols \<Rightarrow> system_status \<Rightarrow> feature_row list option \<Rightarrow> string \<Rightarrow> real
     \<Rightarrow> trade list option \<Rightarrow> signal option" where
  "generate_signal cfg syms sys df symbol current_balance trade_history =
     system_guard cfg sys
       (case df of
          None \<Rightarrow> None
        | Some rows \<Rightarrow>
            if length rows < 2 then None
            else
              let current = last rows in
              if row_atr current > np_mean (map row_atr rows) * VOLATILITY_FACTOR cfg
              then None
              else
                let momentum_signal =
                      (row_momentum current > 0.05 \<and>
                       row_rsi current < 70 \<and>
                       row_close current > row_bb_upper current \<and>
                       row_ema30 current > row_ema50 current \<and>
                       row_volume_ratio current > 1.2 \<and>
                       row_market_state current = TRENDING);
                    swing_signal =
                      (row_rsi current < 40 \<and>
                       row_close current < row_bb_lower current \<and>
                       row_ema30 current > row_ema50 current \<and>
                       row_volume_ratio current > 1.1);
                    position_size =
                      calculate_position_size cfg syms symbol current_balance
                        (if momentum_signal then MOMENTUM else SWING)
                        (row_atr current) (row_close current) trade_history
                in case position_size of
                     None \<Rightarrow> None
                   | Some qty \<Rightarrow>
                       if qty = 0 then None
                       else
                         (case map_of syms symbol of
                            None \<Rightarrow> None
                          | Some sc \<Rightarrow>
                              if momentum_signal then
                                Some \<lparr> signal_symbol = symbol, signal_side = ''BUY'',
                                  signal_type = MOMENTUM, signal_size = qty,
                                  signal_price = row_close current,
                                  signal_stop_loss = row_close current
                                    - stop_multiplier sc MOMENTUM * row_atr current,
                                  signal_take_profit = row_close current
                                    + profit_multiplier sc MOMENTUM * row_atr current \<rparr>
                              else if swing_signal then
                                Some \<lparr> signal_symbol = symbol, signal_side = ''BUY'',
                                  signal_type = SWING, signal_size = qty,
                                  signal_price = row_close current,
                                  signal_stop_loss = row_close current
                                    - stop_multiplier sc SWING * row_atr current,
                                  signal_take_profit = row_close current
                                    + profit_multiplier sc SWING * row_atr current \<rparr>
                              else None))"

section \<open>The order manager\<close>

text \<open>
  Python values, as far as the program stores and serialises them. A dictionary is a list
  of key-value pairs in insertion order, with the keys the program uses: integers (the
  order identifiers the exchange assigns) and strings.
\<close>

datatype py_key = IntKey int | StrKey string

datatype py_value =
    PyNone
  | PyBool bool
  | PyInt int
  | PyFloat real
  | PyStr string
  | PyList "py_value list"
  | PyDict "(py_key \<times> py_value) list"

type_synonym order_id = py_key

text \<open>
  The exchange's answer to an order request: the key \<^verbatim>\<open>'orderId'\<close> and the remaining
  keys of the dictionary. An entry of \<^verbatim>\<open>open_orders\<close> holds the signal, that answer and
  the time of submission. The state of an \<^verbatim>\<open>OrderManager\<close> is its two containers; the
  lock and the unused \<^verbatim>\<open>order_timeouts\<close> are left out, and each method is modelled as it
  runs alone.
\<close>

record exchange_order =
  orderId :: order_id
  order_fields :: "(py_key \<times> py_value) list"

record managed_order =
  mo_signal :: signal
  mo_order :: exchange_order
  mo_timestamp :: real

record order_manager =
  open_orders :: "(order_id \<times> managed_order) list"
  trade_history :: "trade list"

text \<open>
  What the outside world answers during one call of \<^verbatim>\<open>execute_order\<close>: the price
  \<^verbatim>\<open>get_current_price\<close> returns after its retries and its fallback (\<^verbatim>\<open>None\<close> when all
  fail), the USDT balance the exchange reports (\<^verbatim>\<open>None\<close> when the request raises or no
  USDT entry exists), the answer to the market order (\<^verbatim>\<open>None\<close> when the request raises),
  whether the stop order is accepted, and the wall clock. Log lines and Telegram
  messages are not part of the model, so an answer that only decides what is logged (that
  of the take-profit order, and below that of the cancellation) does not appear.
\<close>

record exchange =
  ticker_price :: "real option"
  usdt_balance :: "real option"
  main_order_reply :: "exchange_order option"
  stop_order_accepted :: bool
  clock :: real

text \<open>
  The requests that change something outside the order manager, in the order they are
  sent: orders and cancellations sent to the exchange (whether or not it accepts them)
  and the start of a monitoring thread.
\<close>

datatype effect =
    MarketBuy trading_type string real
  | StopMarket string real
  | TakeProfitMarket string real
  | CancelOrder trading_type string order_id
  | StartMonitor order_id

definition get_current_price :: "exchange \<Rightarrow> string \<Rightarrow> real option" where
  "get_current_price ex symbol = ticker_price ex"

definition get_account_balance :: "config \<Rightarrow> exchange \<Rightarrow> real" where
  "get_account_balance cfg ex =
     (case usdt_balance ex of Some b \<Rightarrow> b | None \<Rightarrow> INITIAL_BALANCE cfg)"

text \<open>
  \<^verbatim>\<open>_pre_execution_check\<close>. \<^verbatim>\<open>not current_price\<close> holds for \<^verbatim>\<open>None\<close> and for 0. The
  method has no \<^verbatim>\<open>try\<close>: a division by zero raises out of it.
\<close>

definition pre_execution_check ::
  "config \<Rightarrow> exchange \<Rightarrow> order_manager \<Rightarrow> signal \<Rightarrow> py_error + bool" where
  "pre_execution_check cfg ex om sig =
     (case get_current_price ex (signal_symbol sig) of
        None \<Rightarrow> Inr False
      | Some current_price \<Rightarrow>
          if current_price = 0 then Inr False
          else if signal_price sig = 0 then Inl ZeroDivisionError
          else
            let slippage = \<bar>current_price - signal_price sig\<bar> / signal_price sig in
            if slippage > MAX_SLIPPAGE cfg then Inr False
            else
              let account_balance = get_account_balance cfg ex in
              if LEVERAGE cfg = 0 then Inl ZeroDivisionError
              else
                let required_margin = (signal_size sig * current_price) / LEVERAGE cfg in
                if required_margin > account_balance * 0.8 then Inr False
                else if int (length (open_orders om)) \<ge> MAX_OPEN_ORDERS cfg then Inr False
                else Inr True)"

text \<open>
  \<^verbatim>\<open>_place_main_order\<close> and \<^verbatim>\<open>_place_risk_orders\<close>: the answer (if any) and the requests
  sent. A rejected stop order raises before the take-profit order is sent; the exception
  is logged and swallowed.
\<close>

definition place_main_order ::
  "config \<Rightarrow> exchange \<Rightarrow> signal \<Rightarrow> exchange_order option \<times> effect list" where
  "place_main_order cfg ex sig =
     (main_order_reply ex,
      [MarketBuy (TRADING_TYPE cfg) (signal_symbol sig) (signal_size sig)])"

definition place_risk_orders :: "exchange \<Rightarrow> signal \<Rightarrow> effect list" where
  "place_risk_orders ex sig =
     StopMarket (signal_symbol sig) (py_round (signal_stop_loss sig) 2) #
     (if stop_order_accepted ex
      then [TakeProfitMarket (signal_symbol sig) (py_round (signal_take_profit sig) 2)]
      else [])"

text \<open>
  \<^verbatim>\<open>execute_order\<close>, with its decorator. The result is the value returned (\<^verbatim>\<open>None\<close> from
  the guard, otherwise a Boolean) or the exception raised, the order manager afterwards,
  and the requests sent.
\<close>

definition execute_order ::
  "config \<Rightarrow> system_status \<Rightarrow> exchange \<Rightarrow> order_manager \<Rightarrow> signal
     \<Rightarrow> (py_error + bool option) \<times> order_manager \<times> effect list" where
  "execute_order cfg sys ex om sig =
     (case system_guard cfg sys (Some ()) of
        None \<Rightarrow> (Inr None, om, [])
      | Some _ \<Rightarrow>
          (case pre_execution_check cfg ex om sig of
             Inl e \<Rightarrow> (Inl e, om, [])
           | Inr ok \<Rightarrow>
               if \<not> ok then (Inr (Some False), om, [])
               else
                 (case place_main_order cfg ex sig of
                    (None, sent) \<Rightarrow> (Inr (Some False), om, sent)
                  | (Some main_order, sent) \<Rightarrow>
                      let order_id = orderId main_order;
                          entry = \<lparr> mo_signal = sig, mo_order = main_order,
                                    mo_timestamp = clock ex \<rparr>
                      in (Inr (Some True),
                          om\<lparr>open_orders := AList.update order_id entry (open_orders om)\<rparr>,
                          sent @ place_risk_orders ex sig @ [StartMonitor order_id]))))"

subsection \<open>Monitoring an order\<close>

text \<open>
  The answer to a status request: the request raises, or it returns a dictionary with
  the key \<^verbatim>\<open>'status'\<close>. \<^verbatim>\<open>executedQty\<close> and \<^verbatim>\<open>avgPrice\<close> are \<^verbatim>\<open>None\<close> when the key
  is missing or \<^verbatim>\<open>float\<close> cannot read its value, both of which raise.

  The exchange is a function of the time at which it is asked: \<open>poll env t\<close> is its
  answer to a status request sent at \<open>t\<close>, and \<open>poll_duration env t\<close> the milliseconds the
  request takes. The clock is the wall clock in seconds, taken to run forward;
  \<^verbatim>\<open>time.sleep(5)\<close> advances it by five seconds. After the timeout the cancel request
  is sent inside a \<^verbatim>\<open>try\<close> whose handler only logs: accepted or not, the entry is
  deleted next.
\<close>

record order_status =
  status :: string
  executedQty :: "real option"
  avgPrice :: "real option"

datatype poll_reply = RequestFailed | Status order_status

record monitor_env =
  poll :: "real \<Rightarrow> poll_reply"
  poll_duration :: "real \<Rightarrow> nat"

text \<open>
  The three return statements of \<^verbatim>\<open>_monitor_order\<close>, named by the state the order ends
  in; \<open>returned\<close> is the Python value each returns.
\<close>

datatype monitor_result = Filled | Canceled | TimedOut

definition returned :: "monitor_result \<Rightarrow> bool" where
  "returned r = (r = Filled)"

function monitor_loop ::
  "config \<Rightarrow> monitor_env \<Rightarrow> order_id \<Rightarrow> signal \<Rightarrow> real \<Rightarrow> real \<Rightarrow> order_manager
     \<Rightarrow> monitor_result \<times> order_manager \<times> effect list" where
  "monitor_loop cfg env order_id sig start_time now om =
     (if now - start_time < 120 then
        (let after = now + real (poll_duration env now) / 1000 in
         case poll env now of
           RequestFailed \<Rightarrow> monitor_loop cfg env order_id sig start_time (after + 5) om
         | Status order_status \<Rightarrow>
             if status order_status = ''FILLED'' then
               (case (executedQty order_status, avgPrice order_status) of
                  (Some qty, Some price) \<Rightarrow>
                    (Filled,
                     om\<lparr>trade_history := trade_history om @
                          [\<lparr> trade_symbol = signal_symbol sig, trade_side = ''BUY'',
                             trade_size = qty, trade_price = price,
                             trade_timestamp = after,
                             trade_signal_type = signal_type sig, trade_pnl = None \<rparr>],
                        open_orders := AList.delete order_id (open_orders om)\<rparr>,
                     [])
                | _ \<Rightarrow> monitor_loop cfg env order_id sig start_time (after + 5) om)
             else if status order_status = ''CANCELED'' then
               (Canceled, om\<lparr>open_orders := AList.delete order_id (open_orders om)\<rparr>, [])
             else monitor_loop cfg env order_id sig start_time (after + 5) om)
      else
        (TimedOut,
         om\<lparr>open_orders := AList.delete order_id (open_orders om)\<rparr>,
         [CancelOrder (TRADING_TYPE cfg) (signal_symbol sig) order_id]))"
  by pat_completeness auto
termination
proof (relation "measure (\<lambda>(cfg, env, order_id, sig, start_time, now, om).
                    nat \<lceil>start_time + 120 - now\<rceil>)", goal_cases)
  have sleep: "nat \<lceil>start_time + 120 - (now + real d / 1000 + 5)\<rceil>
                 < nat \<lceil>start_time + 120 - now\<rceil>"
    if "now - start_time < 120" for start_time now :: real and d :: nat
  proof -
    have "\<lceil>start_time + 120 - (now + real d / 1000 + 5)\<rceil> < \<lceil>start_time + 120 - now\<rceil>"
      and "0 < \<lceil>start_time + 120 - now\<rceil>"
      using that by linarith+
    then show ?thesis by linarith
  qed
  {
    case 1
    show ?case by simp
  next
    case 2
    then show ?case by (simp only: in_measure prod.case sleep)
  next
    case 3
    then show ?case by (simp only: in_measure prod.case sleep)
  next
    case 4
    then show ?case by (simp only: in_measure prod.case sleep)
  next
    case 5
    then show ?case by (simp only: in_measure prod.case sleep)
  }
qed

declare monitor_loop.simps [simp del]

text \<open>\<^verbatim>\<open>_monitor_order\<close>: the clock is read once before the loop.\<close>

definition monitor_order ::
  "config \<Rightarrow> monitor_env \<Rightarrow> order_id \<Rightarrow> signal \<Rightarrow> real \<Rightarrow> order_manager
     \<Rightarrow> monitor_result \<times> order_manager \<times> effect list" where
  "monitor_order cfg env order_id sig start_time om =
     monitor_loop cfg env order_id sig start_time start_time om"

section \<open>The recovery store\<close>

text \<open>
  Python's \<^verbatim>\<open>json\<close> module, as far as the program uses it. A JSON document has strings
  as object names, so \<^verbatim>\<open>json.dump\<close> writes the integer key \<^verbatim>\<open>12345\<close> of a dictionary as
  the name \<^verbatim>\<open>"12345"\<close>, and \<^verbatim>\<open>json.load\<close> returns dictionaries whose keys are all
  strings; a name that occurs twice keeps its first position and its last value. Numbers
  are read back as written.
\<close>

datatype json =
    JNull
  | JBool bool
  | JInt int
  | JFloat real
  | JString string
  | JArray "json list"
  | JObject "(string \<times> json) list"

fun digits :: "nat \<Rightarrow> string" where
  "digits n =
     (if n < 10 then [''0123456789'' ! n]
      else digits (n div 10) @ [''0123456789'' ! (n mod 10)])"

declare digits.simps [simp del]

text \<open>\<^verbatim>\<open>str\<close> of an integer.\<close>

definition str_int :: "int \<Rightarrow> string" where
  "str_int i = (if i < 0 then CHR ''-'' # digits (nat (- i)) else digits (nat i))"

definition json_key :: "py_key \<Rightarrow> string" where
  "json_key k = (case k of IntKey i \<Rightarrow> str_int i | StrKey s \<Rightarrow> s)"

fun json_dump :: "py_value \<Rightarrow> json" where
  "json_dump PyNone = JNull"
| "json_dump (PyBool b) = JBool b"
| "json_dump (PyInt i) = JInt i"
| "json_dump (PyFloat x) = JFloat x"
| "json_dump (PyStr s) = JString s"
| "json_dump (PyList xs) = JArray (map json_dump xs)"
| "json_dump (PyDict kvs) = JObject (map (\<lambda>(k, v). (json_key k, json_dump v)) kvs)"

text \<open>The dictionary built from pairs in order: a repeated key is overwritten in place.\<close>

definition py_dict :: "(py_key \<times> py_value) list \<Rightarrow> (py_key \<times> py_value) list" where
  "py_dict kvs = foldl (\<lambda>d (k, v). AList.update k v d) [] kvs"

fun json_load :: "json \<Rightarrow> py_value" where
  "json_load JNull = PyNone"
| "json_load (JBool b) = PyBool b"
| "json_load (JInt i) = PyInt i"
| "json_load (JFloat x) = PyFloat x"
| "json_load (JString s) = PyStr s"
| "json_load (JArray xs) = PyList (map json_load xs)"
| "json_load (JObject kvs) = PyDict (py_dict (map (\<lambda>(k, v). (StrKey k, json_load v)) kvs))"

text \<open>
  \<^verbatim>\<open>d[key]\<close> for a string key, \<^verbatim>\<open>None\<close> standing for the \<^verbatim>\<open>KeyError\<close> or
  \<^verbatim>\<open>TypeError\<close>; and the value of a number in arithmetic (\<^verbatim>\<open>None\<close> for a value that is
  not a number).
\<close>

definition py_get :: "py_value \<Rightarrow> string \<Rightarrow> py_value option" where
  "py_get d key = (case d of PyDict kvs \<Rightarrow> map_of kvs (StrKey key) | _ \<Rightarrow> None)"

definition py_number :: "py_value \<Rightarrow> real option" where
  "py_number v =
     (case v of
        PyInt i \<Rightarrow> Some (of_int i)
      | PyFloat x \<Rightarrow> Some x
      | PyBool b \<Rightarrow> Some (if b then 1 else 0)
      | _ \<Rightarrow> None)"

text \<open>The Python objects the records of the model stand for.\<close>

definition py_of_strategy :: "strategy \<Rightarrow> py_value" where
  "py_of_strategy s = (case s of MOMENTUM \<Rightarrow> PyStr ''MOMENTUM'' | SWING \<Rightarrow> PyStr ''SWING'')"

definition py_of_trading_type :: "trading_type \<Rightarrow> py_value" where
  "py_of_trading_type t = (case t of Futures \<Rightarrow> PyStr ''futures'' | Spot \<Rightarrow> PyStr ''spot'')"

definition py_of_key :: "py_key \<Rightarrow> py_value" where
  "py_of_key k = (case k of IntKey i \<Rightarrow> PyInt i | StrKey s \<Rightarrow> PyStr s)"

definition py_of_signal :: "signal \<Rightarrow> py_value" where
  "py_of_signal sig =
     PyDict [(StrKey ''symbol'', PyStr (signal_symbol sig)),
             (StrKey ''signal'', PyStr (signal_side sig)),
             (StrKey ''type'', py_of_strategy (signal_type sig)),
             (StrKey ''size'', PyFloat (signal_size sig)),
             (StrKey ''price'', PyFloat (signal_price sig)),
             (StrKey ''stop_loss'', PyFloat (signal_stop_loss sig)),
             (StrKey ''take_profit'', PyFloat (signal_take_profit sig))]"

definition py_of_exchange_order :: "exchange_order \<Rightarrow> py_value" where
  "py_of_exchange_order ord =
     PyDict ((StrKey ''orderId'', py_of_key (orderId ord)) # order_fields ord)"

definition py_of_managed_order :: "managed_order \<Rightarrow> py_value" where
  "py_of_managed_order m =
     PyDict [(StrKey ''signal'', py_of_signal (mo_signal m)),
             (StrKey ''order'', py_of_exchange_order (mo_order m)),
             (StrKey ''timestamp'', PyFloat (mo_timestamp m))]"

definition py_of_open_orders :: "(order_id \<times> managed_order) list \<Rightarrow> py_value" where
  "py_of_open_orders orders = PyDict (map (\<lambda>(k, m). (k, py_of_managed_order m)) orders)"

definition py_of_trade :: "trade \<Rightarrow> py_value" where
  "py_of_trade t =
     PyDict ([(StrKey ''symbol'', PyStr (trade_symbol t)),
              (StrKey ''side'', PyStr (trade_side t)),
              (StrKey ''size'', PyFloat (trade_size t)),
              (StrKey ''price'', PyFloat (trade_price t)),
              (StrKey ''timestamp'', PyFloat (trade_timestamp t)),
              (StrKey ''signal_type'', py_of_strategy (trade_signal_type t))]
             @ (case trade_pnl t of None \<Rightarrow> [] | Some p \<Rightarrow> [(StrKey ''pnl'', PyFloat p)]))"

definition py_of_config :: "config \<Rightarrow> py_value" where
  "py_of_config cfg =
     PyDict [(StrKey ''TRADING_TYPE'', py_of_trading_type (TRADING_TYPE cfg)),
             (StrKey ''INITIAL_BALANCE'', PyFloat (INITIAL_BALANCE cfg)),
             (StrKey ''LEVERAGE'', PyFloat (LEVERAGE cfg)),
             (StrKey ''RISK_PERCENT'', PyFloat (RISK_PERCENT cfg)),
             (StrKey ''MAX_SLIPPAGE'', PyFloat (MAX_SLIPPAGE cfg)),
             (StrKey ''MAX_OPEN_ORDERS'', PyInt (MAX_OPEN_ORDERS cfg)),
             (StrKey ''MEMORY_LIMIT'', PyFloat (MEMORY_LIMIT cfg)),
             (StrKey ''VOLATILITY_FACTOR'', PyFloat (VOLATILITY_FACTOR cfg)),
             (StrKey ''PERFORMANCE_WINDOW'', PyInt (PERFORMANCE_WINDOW cfg))]"

text \<open>
  What the exchange answers while the state is saved. An entry of the position list
  (futures) carries its \<^verbatim>\<open>positionAmt\<close> as \<^verbatim>\<open>float\<close> reads it, an entry of the balance
  list (spot) its \<^verbatim>\<open>free\<close> and \<^verbatim>\<open>locked\<close> amounts; \<^verbatim>\<open>None\<close> stands for a missing key or
  an unreadable value, which raise. A request that raises is \<^verbatim>\<open>None\<close> as well.
\<close>

record position_entry =
  positionAmt :: "real option"
  position_dict :: py_value

record balance_entry =
  balance_free :: "real option"
  balance_locked :: "real option"
  balance_dict :: py_value

record account_replies =
  positions_reply :: "position_entry list option"
  balances_reply :: "balance_entry list option"
  open_orders_reply :: "py_value option"

text \<open>A list comprehension whose condition may raise: \<^verbatim>\<open>None\<close> when it does.\<close>

fun filter_raising :: "('a \<Rightarrow> bool option) \<Rightarrow> 'a list \<Rightarrow> 'a list option" where
  "filter_raising p [] = Some []"
| "filter_raising p (x # xs) =
     (case p x of
        None \<Rightarrow> None
      | Some b \<Rightarrow>
          (case filter_raising p xs of
             None \<Rightarrow> None
           | Some ys \<Rightarrow> Some (if b then x # ys else ys)))"

definition active_positions :: "config \<Rightarrow> account_replies \<Rightarrow> py_value list option" where
  "active_positions cfg acct =
     (case TRADING_TYPE cfg of
        Futures \<Rightarrow>
          (case positions_reply acct of
             None \<Rightarrow> None
           | Some positions \<Rightarrow>
               map_option (map position_dict)
                 (filter_raising
                    (\<lambda>pos. map_option (\<lambda>amt. amt \<noteq> 0) (positionAmt pos)) positions))
      | Spot \<Rightarrow>
          (case balances_reply acct of
             None \<Rightarrow> None
           | Some balances \<Rightarrow>
               map_option (map balance_dict)
                 (filter_raising
                    (\<lambda>balance.
                       case balance_free balance of
                         None \<Rightarrow> None
                       | Some free \<Rightarrow>
                           if free > 0 then Some True
                           else map_option (\<lambda>locked. locked > 0) (balance_locked balance))
                    balances)))"

text \<open>
  The file \<^verbatim>\<open>recovery.json\<close>: missing, present with a text that is not JSON, or
  holding a document.
\<close>

datatype recovery_file = Missing | Unparseable | Document json

text \<open>
  \<^verbatim>\<open>save_recovery_state\<close>, as the file it leaves. An exception of a request is caught
  before the file is opened, and the file stays as it was.
\<close>

definition save_recovery_state ::
  "config \<Rightarrow> account_replies \<Rightarrow> real \<Rightarrow> order_manager \<Rightarrow> recovery_file \<Rightarrow> recovery_file" where
  "save_recovery_state cfg acct now order_manager file =
     (case active_positions cfg acct of
        None \<Rightarrow> file
      | Some positions \<Rightarrow>
          (case open_orders_reply acct of
             None \<Rightarrow> file
           | Some active_orders \<Rightarrow>
               let recovery_data =
                     PyDict [(StrKey ''positions'', PyList positions),
                             (StrKey ''orders'', active_orders),
                             (StrKey ''open_orders'',
                                py_of_open_orders (open_orders order_manager)),
                             (StrKey ''trade_history'',
                                PyList (map py_of_trade
                                  (py_slice_from (- 50) (trade_history order_manager)))),
                             (StrKey ''timestamp'', PyFloat now),
                             (StrKey ''config'', py_of_config cfg),
                             (StrKey ''trading_type'', py_of_trading_type (TRADING_TYPE cfg))]
               in Document (json_dump recovery_data)))"

text \<open>\<^verbatim>\<open>load_recovery_state\<close>; every exception gives \<^verbatim>\<open>None\<close>.\<close>

definition load_recovery_state :: "real \<Rightarrow> recovery_file \<Rightarrow> py_value option" where
  "load_recovery_state now file =
     (case file of
        Missing \<Rightarrow> None
      | Unparseable \<Rightarrow> None
      | Document doc \<Rightarrow>
          let state = json_load doc in
          (case py_get state ''timestamp'' of
             None \<Rightarrow> None
           | Some ts \<Rightarrow>
               (case py_number ts of
                  None \<Rightarrow> None
                | Some t \<Rightarrow> if now - t > 3600 then None else Some state)))"

section \<open>Concrete inputs\<close>

text \<open>Inputs at which the theorems below are instantiated.\<close>

definition example_config :: config where
  "example_config = \<lparr> TRADING_TYPE = Futures, INITIAL_BALANCE = 1000, LEVERAGE = 3,
     RISK_PERCENT = 0.02, MAX_SLIPPAGE = 0.01, MAX_OPEN_ORDERS = 3,
     MEMORY_LIMIT = 85, VOLATILITY_FACTOR = 3, PERFORMANCE_WINDOW = 20 \<rparr>"

definition example_trade :: "real option \<Rightarrow> trade" where
  "example_trade p = \<lparr> trade_symbol = ''BTCUSDT'', trade_side = ''BUY'', trade_size = 0.01,
     trade_price = 30000, trade_timestamp = 1700000000, trade_signal_type = MOMENTUM,
     trade_pnl = p \<rparr>"

definition example_symbols :: trade_symbols where
  "example_symbols =
     [(''ADAUSDT'', \<lparr> risk_weight = 1, stop_multiplier = (\<lambda>_. 2),
         profit_multiplier = (\<lambda>_. 3), min_qty = 1, max_position_usd = 2000 \<rparr>)]"

definition example_status :: system_status where
  "example_status = \<lparr> memory_percent = 40, active_threads = 3 \<rparr>"

definition example_row :: "real \<Rightarrow> real \<Rightarrow> market_regime \<Rightarrow> feature_row" where
  "example_row rsi close state =
     \<lparr> row_close = close, row_momentum = 0.06, row_rsi = rsi, row_atr = 3 / 100,
       row_ema30 = 3, row_ema50 = 29 / 10, row_bb_upper = 31 / 10, row_bb_lower = 28 / 10,
       row_volume_ratio = 3 / 2, row_market_state = state \<rparr>"

definition example_signal :: signal where
  "example_signal = \<lparr> signal_symbol = ''ADAUSDT'', signal_side = ''BUY'',
     signal_type = MOMENTUM, signal_size = 10, signal_price = 100,
     signal_stop_loss = 94, signal_take_profit = 109 \<rparr>"

definition example_exchange :: "real \<Rightarrow> exchange" where
  "example_exchange price = \<lparr> ticker_price = Some price, usdt_balance = Some 5000,
     main_order_reply = Some \<lparr> orderId = IntKey 12345, order_fields = [] \<rparr>,
     stop_order_accepted = True, clock = 1700000000 \<rparr>"

definition example_manager :: order_manager where
  "example_manager = \<lparr> open_orders =
       [(IntKey 12345, \<lparr> mo_signal = example_signal,
           mo_order = \<lparr> orderId = IntKey 12345, order_fields = [] \<rparr>,
           mo_timestamp = 1700000000 \<rparr>)],
     trade_history = [example_trade None] \<rparr>"

definition example_monitor :: "string \<Rightarrow> monitor_env" where
  "example_monitor s = \<lparr> poll = (\<lambda>t. if t < 1700000060 then RequestFailed
       else Status \<lparr> status = s, executedQty = Some 10, avgPrice = Some 101 \<rparr>),
     poll_duration = (\<lambda>t. 250) \<rparr>"

definition example_account :: account_replies where
  "example_account = \<lparr> positions_reply = Some [], balances_reply = Some [],
     open_orders_reply = Some (PyList []) \<rparr>"

section \<open>Properties of the parameter optimizer\<close>

lemma py_slice_from_last:
  assumes "0 < w"
  shows "py_slice_from (- w) xs = spec_recent (nat w) xs"
proof -
  have "nat (max (- w + int (length xs)) 0) = length xs - nat w"
    using assms by (simp add: max_def nat_diff_distrib')
  then show ?thesis
    using assms by (simp add: py_slice_from_def spec_recent_def Let_def)
qed

lemma spec_recent_nonempty:
  assumes "0 < w" and "xs \<noteq> []"
  shows "spec_recent w xs \<noteq> []"
  using assms by (cases xs) (auto simp: spec_recent_def)

lemma sum_list_neg:
  assumes "\<And>x. x \<in> set xs \<Longrightarrow> x < (0::real)" and "xs \<noteq> []"
  shows "sum_list xs < 0"
  using assms
proof (induction xs)
  case Nil
  then show ?case by simp
next
  case (Cons a xs)
  show ?case
  proof (cases "xs = []")
    case True
    with Cons.prems show ?thesis by simp
  next
    case False
    with Cons have "sum_list xs < 0" by simp
    moreover have "a < 0" using Cons.prems by simp
    ultimately show ?thesis by simp
  qed
qed

lemma sum_list_abs_neg:
  assumes "\<And>x. x \<in> set xs \<Longrightarrow> x < (0::real)"
  shows "sum_list (map abs xs) = - sum_list xs"
  using assms
proof (induction xs)
  case Nil
  then show ?case by simp
next
  case (Cons a xs)
  have "a < 0" using Cons.prems by simp
  moreover have "sum_list (map abs xs) = - sum_list xs"
    using Cons by simp
  ultimately show ?case by simp
qed

lemma abs_mean_losers:
  assumes "ls = filter (\<lambda>t. calculate_pnl t < 0) ts" and "ls \<noteq> []"
  shows "\<bar>np_mean (map calculate_pnl ls)\<bar> = spec_mean (map (\<lambda>t. \<bar>calculate_pnl t\<bar>) ls)"
    and "0 < \<bar>np_mean (map calculate_pnl ls)\<bar>"
proof -
  let ?xs = "map calculate_pnl ls"
  have neg: "\<And>x. x \<in> set ?xs \<Longrightarrow> x < 0"
    using assms(1) by auto
  have ne: "?xs \<noteq> []" using assms(2) by simp
  have s: "sum_list ?xs < 0" using sum_list_neg [OF neg ne] .
  have len: "0 < real (length ls)" using assms(2) by simp
  have m: "np_mean ?xs < 0"
    unfolding np_mean_def using s len by (simp add: divide_neg_pos)
  have "sum_list (map abs ?xs) = - sum_list ?xs"
    using sum_list_abs_neg [OF neg] .
  then have "spec_mean (map (\<lambda>t. \<bar>calculate_pnl t\<bar>) ls) = - np_mean ?xs"
    using assms(2) by (simp add: spec_mean_def np_mean_def comp_def)
  with m show "\<bar>np_mean ?xs\<bar> = spec_mean (map (\<lambda>t. \<bar>calculate_pnl t\<bar>) ls)"
    by simp
  from m show "0 < \<bar>np_mean ?xs\<bar>" by simp
qed

text \<open>
  The comparison of \<open>optimize_risk\<close> with the specification's policy, shared by the
  theorems of this section.
\<close>

lemma optimize_risk_eq_spec:
  assumes "10 \<le> length ts" and "0 < PERFORMANCE_WINDOW cfg"
  shows "optimize_risk cfg ts =
           Inr (spec_adjust_risk (RISK_PERCENT cfg)
                  (spec_win_rate (spec_recent (nat (PERFORMANCE_WINDOW cfg)) ts))
                  (spec_profit_loss_ratio (spec_recent (nat (PERFORMANCE_WINDOW cfg)) ts)))"
proof -
  let ?r = "spec_recent (nat (PERFORMANCE_WINDOW cfg)) ts"
  let ?ws = "filter (\<lambda>t. 0 < calculate_pnl t) ?r"
  let ?ls = "filter (\<lambda>t. calculate_pnl t < 0) ?r"
  have sl: "py_slice_from (- PERFORMANCE_WINDOW cfg) ts = ?r"
    using assms(2) by (rule py_slice_from_last)
  have "ts \<noteq> []" using assms(1) by auto
  then have ne: "?r \<noteq> []"
    using assms(2) by (intro spec_recent_nonempty) simp_all
  have len: "\<not> length ts < 10" using assms(1) by simp
  have profit: "(if ?ws \<noteq> [] then np_mean (map calculate_pnl ?ws) else 0)
                  = spec_mean (map calculate_pnl ?ws)"
    by (simp add: spec_mean_def np_mean_def)
  have ratio: "(let avg_loss = (if ?ls \<noteq> [] then \<bar>np_mean (map calculate_pnl ?ls)\<bar> else 1)
                in if avg_loss > 0 then spec_mean (map calculate_pnl ?ws) / avg_loss else 1)
               = spec_profit_loss_ratio ?r"
  proof (cases "?ls = []")
    case True
    then show ?thesis by (simp add: spec_profit_loss_ratio_def Let_def)
  next
    case False
    from abs_mean_losers [OF refl False] False show ?thesis
      by (simp add: spec_profit_loss_ratio_def Let_def)
  qed
  show ?thesis
    unfolding optimize_risk_def sl
    using len ne profit ratio
    by (simp add: Let_def spec_adjust_risk_def spec_win_rate_def)
qed

text \<open>
  Claim C4. For a history of at least ten trades (and a positive performance window),
  \<open>optimize_risk\<close> returns what the specification's policy gives for the win rate and
  the profit/loss ratio of the most recent \<open>PERFORMANCE_WINDOW\<close> trades: base risk
  times 1.2 capped at 0.035 when the win rate is above 0.7 and the ratio above 1.5, base
  risk times 0.8 floored at 0.015 when the win rate is below 0.4 or the ratio below 0.8,
  and the base risk otherwise.
\<close>

theorem optimize_risk_policy:
  assumes "10 \<le> length ts" and "0 < PERFORMANCE_WINDOW cfg"
  shows "optimize_risk cfg ts =
           Inr (spec_adjust_risk (RISK_PERCENT cfg)
                  (spec_win_rate (spec_recent (nat (PERFORMANCE_WINDOW cfg)) ts))
                  (spec_profit_loss_ratio (spec_recent (nat (PERFORMANCE_WINDOW cfg)) ts)))"
  using assms by (rule optimize_risk_eq_spec)

lemmas optimize_risk_eval =
  optimize_risk_def example_config_def example_trade_def py_slice_from_def
  calculate_pnl_def np_mean_def spec_adjust_risk_def spec_win_rate_def
  spec_profit_loss_ratio_def spec_recent_def spec_mean_def Let_def

text \<open>
  The scenario of the specification: twelve recent trades, nine of them profitable, the
  average win twice the average loss; a base risk of 2 percent becomes 2.4 percent.
\<close>

theorem optimize_risk_policy_witness:
  "10 \<le> length (replicate 9 (example_trade (Some 2)) @ replicate 3 (example_trade (Some (- 1))))
   \<and> 0 < PERFORMANCE_WINDOW example_config
   \<and> optimize_risk example_config
         (replicate 9 (example_trade (Some 2)) @ replicate 3 (example_trade (Some (- 1))))
       = Inr (spec_adjust_risk (2 / 100) (3 / 4) 2)
   \<and> spec_adjust_risk (2 / 100) (3 / 4) 2 = 24 / 1000"
  using optimize_risk_policy [of
      "replicate 9 (example_trade (Some 2)) @ replicate 3 (example_trade (Some (- 1)))"
      example_config]
  by (simp add: optimize_risk_eval numeral_eq_Suc)

text \<open>
  Claim C5, as amended. With fewer than ten trades \<open>optimize_risk\<close> returns the base
  risk. With at least ten trades (a positive performance window and a non-negative base
  risk) it returns a value between \<open>min base 0.015\<close> and \<open>max base 0.035\<close>: the cap applies
  only when the risk is raised and the floor only when it is lowered, so the result lies
  in [0.015, 0.035] whenever the base risk does, and is the base risk itself in the third
  branch. The result is a function of the configuration and the history alone.
\<close>

theorem optimize_risk_range:
  "(length ts < 10 \<longrightarrow> optimize_risk cfg ts = Inr (RISK_PERCENT cfg)) \<and>
   (10 \<le> length ts \<longrightarrow> 0 < PERFORMANCE_WINDOW cfg \<longrightarrow> 0 \<le> RISK_PERCENT cfg \<longrightarrow>
      (\<exists>r. optimize_risk cfg ts = Inr r \<and>
           min (RISK_PERCENT cfg) 0.015 \<le> r \<and> r \<le> max (RISK_PERCENT cfg) 0.035))"
proof (intro conjI impI)
  assume "length ts < 10"
  then show "optimize_risk cfg ts = Inr (RISK_PERCENT cfg)"
    by (simp add: optimize_risk_def)
next
  assume a: "10 \<le> length ts" "0 < PERFORMANCE_WINDOW cfg"
  assume nn: "0 \<le> RISK_PERCENT cfg"
  let ?b = "RISK_PERCENT cfg"
  have b: "min ?b 0.015 \<le> spec_adjust_risk ?b w q \<and> spec_adjust_risk ?b w q \<le> max ?b 0.035"
    for w q
    using nn by (simp add: spec_adjust_risk_def min_def max_def)
  show "\<exists>r. optimize_risk cfg ts = Inr r \<and> min ?b 0.015 \<le> r \<and> r \<le> max ?b 0.035"
    using optimize_risk_eq_spec [OF a] b by blast
qed

theorem optimize_risk_range_witness:
  "length (replicate 9 (example_trade (Some 1))) < 10
   \<and> optimize_risk example_config (replicate 9 (example_trade (Some 1)))
       = Inr (RISK_PERCENT example_config)
   \<and> 10 \<le> length (replicate 10 (example_trade (Some 1)))
   \<and> 0 < PERFORMANCE_WINDOW example_config \<and> 0 \<le> RISK_PERCENT example_config
   \<and> (\<exists>r. optimize_risk example_config (replicate 10 (example_trade (Some 1))) = Inr r
         \<and> min (RISK_PERCENT example_config) 0.015 \<le> r
         \<and> r \<le> max (RISK_PERCENT example_config) 0.035)"
  using optimize_risk_range [of "replicate 9 (example_trade (Some 1))" example_config]
    optimize_risk_range [of "replicate 10 (example_trade (Some 1))" example_config]
  by (simp add: example_config_def)

text \<open>
  The claim as stated fails: a base risk of 5 percent passes \<^verbatim>\<open>validate_config\<close>, and a
  history of five winners and five losers of equal size (win rate 0.5, ratio 1) leaves it
  unchanged, above the ceiling of 3.5 percent.
\<close>

theorem optimize_risk_range_counterexample:
  "10 \<le> length (replicate 5 (example_trade (Some 1)) @ replicate 5 (example_trade (Some (- 1))))
   \<and> optimize_risk (example_config\<lparr>RISK_PERCENT := 5 / 100\<rparr>)
         (replicate 5 (example_trade (Some 1)) @ replicate 5 (example_trade (Some (- 1))))
       = Inr (5 / 100)
   \<and> \<not> (5 / 100 \<le> (0.035 :: real))"
  by (simp add: optimize_risk_eval numeral_eq_Suc)

text \<open>
  Claim C10, as amended. The PnL of a trade is its \<^verbatim>\<open>'pnl'\<close> field when present and 0
  otherwise. So for a history of at least ten trades none of which carries the field (and
  a positive performance window), no recent trade counts as profitable, the win rate is 0,
  and \<open>optimize_risk\<close> returns \<open>max (base * 0.8) 0.015\<close>. That is below the base risk
  exactly when the base risk is above 0.015; at 0.015 the risk is unchanged and below
  0.015 it is raised to 0.015.
\<close>

theorem optimize_risk_without_pnl:
  assumes "10 \<le> length ts" and "0 < PERFORMANCE_WINDOW cfg"
    and "\<forall>t \<in> set ts. trade_pnl t = None"
  shows "calculate_pnl t' = (case trade_pnl t' of Some p \<Rightarrow> p | None \<Rightarrow> 0)
    \<and> filter (\<lambda>t. calculate_pnl t > 0) (py_slice_from (- PERFORMANCE_WINDOW cfg) ts) = []
    \<and> spec_win_rate (spec_recent (nat (PERFORMANCE_WINDOW cfg)) ts) = 0
    \<and> optimize_risk cfg ts = Inr (max (RISK_PERCENT cfg * 0.8) 0.015)
    \<and> (max (RISK_PERCENT cfg * 0.8) 0.015 < RISK_PERCENT cfg \<longleftrightarrow> 0.015 < RISK_PERCENT cfg)"
proof -
  let ?r = "spec_recent (nat (PERFORMANCE_WINDOW cfg)) ts"
  have zero: "calculate_pnl t = 0" if "t \<in> set ?r" for t
  proof -
    from that have "t \<in> set ts"
      unfolding spec_recent_def by (rule in_set_dropD)
    with assms(3) show ?thesis by (simp add: calculate_pnl_def)
  qed
  have w: "filter (\<lambda>t. 0 < calculate_pnl t) ?r = []"
    using zero by (auto simp: filter_empty_conv)
  have l: "filter (\<lambda>t. calculate_pnl t < 0) ?r = []"
    using zero by (auto simp: filter_empty_conv)
  have wr: "spec_win_rate ?r = 0"
    by (simp add: spec_win_rate_def w)
  have ratio: "spec_profit_loss_ratio ?r = 0"
    by (simp add: spec_profit_loss_ratio_def w l spec_mean_def)
  have "optimize_risk cfg ts = Inr (spec_adjust_risk (RISK_PERCENT cfg) 0 0)"
    using optimize_risk_eq_spec [OF assms(1,2)] wr ratio by simp
  then have res: "optimize_risk cfg ts = Inr (max (RISK_PERCENT cfg * 0.8) 0.015)"
    by (simp add: spec_adjust_risk_def)
  have cmp: "max (RISK_PERCENT cfg * 0.8) 0.015 < RISK_PERCENT cfg \<longleftrightarrow> 0.015 < RISK_PERCENT cfg"
    by (auto simp: max_def)
  have sl: "py_slice_from (- PERFORMANCE_WINDOW cfg) ts = ?r"
    using assms(2) by (rule py_slice_from_last)
  show ?thesis
    using w wr res cmp by (simp add: sl calculate_pnl_def)
qed

theorem optimize_risk_without_pnl_witness:
  "10 \<le> length (replicate 10 (example_trade None))
   \<and> 0 < PERFORMANCE_WINDOW example_config
   \<and> (\<forall>t \<in> set (replicate 10 (example_trade None)). trade_pnl t = None) = True
   \<and> optimize_risk example_config (replicate 10 (example_trade None)) = Inr (16 / 1000)
   \<and> (16 / 1000 :: real) < RISK_PERCENT example_config"
  using optimize_risk_without_pnl [of "replicate 10 (example_trade None)" example_config]
  by (simp add: example_config_def example_trade_def)

text \<open>
  The claim as stated fails at the smallest base risk \<^verbatim>\<open>validate_config\<close> admits,
  1 percent: ten trades without a \<^verbatim>\<open>'pnl'\<close> field raise it to 1.5 percent.
\<close>

theorem optimize_risk_without_pnl_counterexample:
  "10 \<le> length (replicate 10 (example_trade None))
   \<and> trade_pnl (example_trade None) = None
   \<and> optimize_risk (example_config\<lparr>RISK_PERCENT := 1 / 100\<rparr>)
         (replicate 10 (example_trade None)) = Inr (15 / 1000)
   \<and> \<not> (15 / 1000 < (1 / 100 :: real))"
  by (simp add: optimize_risk_eval)

section \<open>Properties of position sizing\<close>

lemmas position_size_eval =
  calculate_position_size_def example_config_def example_symbols_def endswith_def
  py_round_def round_half_even_def Let_def

lemma round_half_even_mono:
  assumes "x \<le> y"
  shows "round_half_even x \<le> round_half_even y"
proof (cases "\<lfloor>x\<rfloor> < \<lfloor>y\<rfloor>")
  case True
  have "round_half_even x \<le> \<lfloor>x\<rfloor> + 1"
    by (simp add: round_half_even_def Let_def)
  also have "\<dots> \<le> \<lfloor>y\<rfloor>" using True by simp
  also have "\<dots> \<le> round_half_even y"
    by (simp add: round_half_even_def Let_def)
  finally show ?thesis .
next
  case False
  moreover have "\<lfloor>x\<rfloor> \<le> \<lfloor>y\<rfloor>" using assms by (rule floor_mono)
  ultimately have eq: "\<lfloor>x\<rfloor> = \<lfloor>y\<rfloor>" by simp
  then have "x - of_int \<lfloor>x\<rfloor> \<le> y - of_int \<lfloor>y\<rfloor>" using assms by simp
  then show ?thesis
    unfolding round_half_even_def Let_def eq by auto
qed

lemma round_half_even_near:
  "of_int (round_half_even x) \<le> x + 1 / 2"
proof -
  have "of_int \<lfloor>x\<rfloor> \<le> x" by simp
  then show ?thesis
    unfolding round_half_even_def Let_def
    by (auto simp del: of_int_floor_le)
qed

lemma py_round_mono:
  assumes "x \<le> y"
  shows "py_round x n \<le> py_round y n"
proof -
  have "x * 10 ^ n \<le> y * 10 ^ n" using assms by simp
  then have "round_half_even (x * 10 ^ n) \<le> round_half_even (y * 10 ^ n)"
    by (rule round_half_even_mono)
  then show ?thesis
    by (simp add: py_round_def divide_right_mono)
qed

lemma py_round_le:
  "py_round x n \<le> x + 1 / (2 * 10 ^ n)"
proof -
  have "of_int (round_half_even (x * 10 ^ n)) \<le> x * 10 ^ n + 1 / 2"
    by (rule round_half_even_near)
  then have "of_int (round_half_even (x * 10 ^ n)) / 10 ^ n \<le> (x * 10 ^ n + 1 / 2) / 10 ^ n"
    by (simp add: divide_right_mono)
  also have "\<dots> = x + 1 / (2 * 10 ^ n)"
    by (simp add: field_simps)
  finally show ?thesis by (simp add: py_round_def)
qed

text \<open>
  The body of \<open>calculate_position_size\<close> after the risk fraction and the symbol's settings
  have been read, for a non-zero price and a non-zero stop distance.
\<close>

lemma calculate_position_size_unfold:
  assumes "(case hist of
              Some h \<Rightarrow> if h \<noteq> [] then optimize_risk cfg h else Inr (RISK_PERCENT cfg)
            | None \<Rightarrow> Inr (RISK_PERCENT cfg)) = Inr r"
    and "map_of syms symbol = Some sc"
    and "price \<noteq> 0" and "stop_multiplier sc st * atr \<noteq> 0"
  shows "calculate_position_size cfg syms symbol balance st atr price hist =
     (let raw = balance * r * risk_weight sc * (1 - min (atr / price * 100) 5 * 0.1)
                  / (stop_multiplier sc st * atr);
          pos = min (if endswith symbol ''USDT'' then raw / price else raw)
                    (max_position_usd sc / price)
      in if pos < min_qty sc then None else Some (py_round pos 5))"
  using assms by (simp add: calculate_position_size_def Let_def)

lemma calculate_position_size_SomeD:
  assumes "calculate_position_size cfg syms symbol balance st atr price hist = Some q"
  shows "\<exists>r sc. (case hist of
              Some h \<Rightarrow> if h \<noteq> [] then optimize_risk cfg h else Inr (RISK_PERCENT cfg)
            | None \<Rightarrow> Inr (RISK_PERCENT cfg)) = Inr r
          \<and> map_of syms symbol = Some sc
          \<and> price \<noteq> 0 \<and> stop_multiplier sc st * atr \<noteq> 0"
  using assms
  by (auto simp: calculate_position_size_def Let_def split: sum.splits option.splits if_splits)

lemma position_raw_antimono:
  fixes base m price a1 a2 :: real
  assumes "0 < price" and "0 < a1" and "a1 / price \<le> a2 / price" and "0 < m"
    and "0 \<le> base * (1 - min (a2 / price * 100) 5 * 0.1) / (m * a2)"
  shows "base * (1 - min (a2 / price * 100) 5 * 0.1) / (m * a2)
           \<le> base * (1 - min (a1 / price * 100) 5 * 0.1) / (m * a1)"
proof -
  let ?f = "\<lambda>a. 1 - min (a / price * 100) 5 * (0.1 :: real)"
  have a12: "a1 \<le> a2"
    using assms(1,3) by (simp add: divide_le_cancel)
  then have a2: "0 < a2" using assms(2) by simp
  have f2: "1 / 2 \<le> ?f a2" by (simp add: min_def)
  have "a1 / price * 100 \<le> a2 / price * 100"
    using assms(3) by (intro mult_right_mono) simp_all
  then have "min (a1 / price * 100) 5 \<le> min (a2 / price * 100) 5"
    by (rule min.mono) simp
  then have f12: "?f a2 \<le> ?f a1" by simp
  have den2: "0 < m * a2" using assms(4) a2 by simp
  have den1: "0 < m * a1" using assms(2,4) by simp
  have "0 \<le> base * ?f a2"
    using assms(5) den2 by (simp add: zero_le_divide_iff)
  then have base: "0 \<le> base"
    using f2 by (simp add: zero_le_mult_iff)
  have num: "base * ?f a2 \<le> base * ?f a1"
    using f12 base by (rule mult_left_mono)
  have den: "m * a1 \<le> m * a2"
    using a12 assms(4) by simp
  have "0 \<le> base * ?f a1"
    using \<open>0 \<le> base * ?f a2\<close> num by simp
  then show ?thesis
    using num den1 den by (rule frac_le)
qed

text \<open>
  Claim C7, as amended. Let the sizer return a quantity \<open>q2\<close> at \<open>atr2\<close>. Then \<open>q2\<close> is
  at most the symbol's maximum quantity \<open>max_position_usd / price\<close> rounded to five
  decimals, hence exceeds the maximum by at most 0.000005 (the rounding is the last step,
  after the clamp); the volatility discount is at most one half; and at the same price,
  balance, symbol, strategy and history, for a positive price, a positive stop multiplier
  and a non-negative minimum quantity, every smaller positive ATR (a smaller ATR/price
  ratio) yields a quantity too, which is at least \<open>q2\<close>.
\<close>

theorem position_size_capped_antimono:
  assumes "calculate_position_size cfg syms symbol balance st atr2 price h = Some q2"
    and "map_of syms symbol = Some sc"
  shows "q2 \<le> py_round (max_position_usd sc / price) 5
    \<and> q2 \<le> max_position_usd sc / price + 1 / 200000
    \<and> min (atr2 / price * 100) 5 * 0.1 \<le> (1 / 2 :: real)
    \<and> (0 < price \<longrightarrow> 0 < atr1 \<longrightarrow> atr1 / price \<le> atr2 / price \<longrightarrow>
         0 < stop_multiplier sc st \<longrightarrow> 0 \<le> min_qty sc \<longrightarrow>
         (\<exists>q1. calculate_position_size cfg syms symbol balance st atr1 price h = Some q1
               \<and> q2 \<le> q1))"
proof -
  from calculate_position_size_SomeD [OF assms(1)] assms(2)
  obtain r where r: "(case h of
              Some h \<Rightarrow> if h \<noteq> [] then optimize_risk cfg h else Inr (RISK_PERCENT cfg)
            | None \<Rightarrow> Inr (RISK_PERCENT cfg)) = Inr r"
    and price: "price \<noteq> 0" and den2: "stop_multiplier sc st * atr2 \<noteq> 0"
    by auto
  define base where "base = balance * r * risk_weight sc"
  define m where "m = stop_multiplier sc st"
  define cap where "cap = max_position_usd sc / price"
  define raw where "raw a = base * (1 - min (a / price * 100) 5 * 0.1) / (m * a)" for a
  define pos where "pos a = min (if endswith symbol ''USDT'' then raw a / price else raw a) cap"
    for a
  have unfold: "calculate_position_size cfg syms symbol balance st a price h =
      (if pos a < min_qty sc then None else Some (py_round (pos a) 5))"
    if "m * a \<noteq> 0" for a
    using calculate_position_size_unfold [OF r assms(2) price, of st a balance] that
    by (simp add: Let_def pos_def raw_def base_def m_def cap_def)
  have at2: "\<not> pos atr2 < min_qty sc" "q2 = py_round (pos atr2) 5"
    using assms(1) unfold [of atr2] den2 by (auto simp: m_def split: if_splits)
  have "pos atr2 \<le> cap" by (simp add: pos_def)
  then have c1: "q2 \<le> py_round cap 5"
    unfolding at2(2) by (rule py_round_mono)
  have c2: "q2 \<le> cap + 1 / 200000"
    using c1 py_round_le [of cap 5] by simp
  have c3: "min (atr2 / price * 100) 5 * 0.1 \<le> (1 / 2 :: real)"
    by (simp add: min_def)
  have c4: "\<exists>q1. calculate_position_size cfg syms symbol balance st atr1 price h = Some q1
               \<and> q2 \<le> q1"
    if hyp: "0 < price" "0 < atr1" "atr1 / price \<le> atr2 / price" "0 < m" "0 \<le> min_qty sc"
  proof -
    have "0 \<le> pos atr2" using at2(1) hyp(5) by simp
    then have "0 \<le> (if endswith symbol ''USDT'' then raw atr2 / price else raw atr2)"
      by (simp add: pos_def)
    then have raw2: "0 \<le> raw atr2"
      using hyp(1) by (simp add: zero_le_divide_iff split: if_splits)
    have "raw atr2 \<le> raw atr1"
      unfolding raw_def
      using hyp(1-4) raw2 [unfolded raw_def] by (rule position_raw_antimono)
    then have "(if endswith symbol ''USDT'' then raw atr2 / price else raw atr2)
             \<le> (if endswith symbol ''USDT'' then raw atr1 / price else raw atr1)"
      using hyp(1) by (simp add: divide_right_mono)
    then have le: "pos atr2 \<le> pos atr1"
      unfolding pos_def by (rule min.mono) simp
    have "m * atr1 \<noteq> 0" using hyp(2,4) by simp
    then have "calculate_position_size cfg syms symbol balance st atr1 price h =
        Some (py_round (pos atr1) 5)"
      using unfold [of atr1] le at2(1) by simp
    moreover have "q2 \<le> py_round (pos atr1) 5"
      unfolding at2(2) using le by (rule py_round_mono)
    ultimately show ?thesis by simp
  qed
  show ?thesis
    using c1 c2 c3 c4 by (simp add: cap_def m_def)
qed

theorem position_size_capped_antimono_witness:
  "calculate_position_size example_config example_symbols ''ADAUSDT'' 100 MOMENTUM
       (6 / 100) 3 None = Some (444444 / 100000)
   \<and> map_of example_symbols ''ADAUSDT'' = Some (snd (hd example_symbols))
   \<and> (0 :: real) < 3 \<and> (0 :: real) < 3 / 100 \<and> (3 / 100) / 3 \<le> (6 / 100) / (3 :: real)
   \<and> 0 < stop_multiplier (snd (hd example_symbols)) MOMENTUM
   \<and> 0 \<le> min_qty (snd (hd example_symbols))
   \<and> calculate_position_size example_config example_symbols ''ADAUSDT'' 100 MOMENTUM
       (3 / 100) 3 None = Some 10
   \<and> (444444 / 100000 :: real) \<le> py_round (max_position_usd (snd (hd example_symbols)) / 3) 5"
  using position_size_capped_antimono [of example_config example_symbols "''ADAUSDT''" 100
      MOMENTUM "6 / 100" 3 None "444444 / 100000" "snd (hd example_symbols)" "3 / 100"]
  by (simp add: position_size_eval)

text \<open>
  The claim as stated fails twice. With a balance of 10000 the quantity is clamped to
  \<open>2000 / 3\<close> and then rounded up to 666.66667, above the maximum. And with the ATR fixed
  at 0.03, the price 30 has the smaller ATR/price ratio and the smaller quantity (1.1
  against 10 at the price 3): the quantity depends on the price beyond the ratio.
\<close>

theorem position_size_capped_antimono_counterexample:
  "calculate_position_size example_config example_symbols ''ADAUSDT'' 10000 MOMENTUM
       (3 / 100) 3 None = Some (66666667 / 100000)
   \<and> \<not> (66666667 / 100000 \<le> max_position_usd (snd (hd example_symbols)) / (3 :: real))
   \<and> (3 / 100) / 30 \<le> (3 / 100) / (3 :: real)
   \<and> calculate_position_size example_config example_symbols ''ADAUSDT'' 100 MOMENTUM
       (3 / 100) 30 None = Some (11 / 10)
   \<and> calculate_position_size example_config example_symbols ''ADAUSDT'' 100 MOMENTUM
       (3 / 100) 3 None = Some 10
   \<and> \<not> ((10 :: real) \<le> 11 / 10)"
  by (simp add: position_size_eval)

section \<open>Properties of signal generation\<close>

text \<open>
  Claim C6. Let the resource guard pass, the frame have at least two rows and its last
  row pass the volatility pre-filter. Then a MOMENTUM signal is emitted exactly when the
  six MOMENTUM conditions hold for the last row and sizing for MOMENTUM yields a non-zero
  quantity; and a SWING signal is emitted exactly when the MOMENTUM conditions do not all
  hold, the four SWING conditions hold and sizing for SWING yields a non-zero quantity.
  So a row that satisfies both rule sets gives a MOMENTUM signal, never a SWING one.
\<close>

theorem generate_signal_rules:
  assumes "\<not> memory_percent sys > MEMORY_LIMIT cfg" and "\<not> active_threads sys > 15"
    and "2 \<le> length rows"
    and "\<not> row_atr (last rows) > np_mean (map row_atr rows) * VOLATILITY_FACTOR cfg"
  shows
    "((\<exists>s. generate_signal cfg syms sys (Some rows) symbol balance h = Some s
           \<and> signal_type s = MOMENTUM)
       \<longleftrightarrow>
      (row_momentum (last rows) > 0.05 \<and> row_rsi (last rows) < 70
        \<and> row_close (last rows) > row_bb_upper (last rows)
        \<and> row_ema30 (last rows) > row_ema50 (last rows)
        \<and> row_volume_ratio (last rows) > 1.2
        \<and> row_market_state (last rows) = TRENDING)
      \<and> (\<exists>q. calculate_position_size cfg syms symbol balance MOMENTUM
                 (row_atr (last rows)) (row_close (last rows)) h = Some q \<and> q \<noteq> 0))
     \<and>
     ((\<exists>s. generate_signal cfg syms sys (Some rows) symbol balance h = Some s
           \<and> signal_type s = SWING)
       \<longleftrightarrow>
      \<not> (row_momentum (last rows) > 0.05 \<and> row_rsi (last rows) < 70
        \<and> row_close (last rows) > row_bb_upper (last rows)
        \<and> row_ema30 (last rows) > row_ema50 (last rows)
        \<and> row_volume_ratio (last rows) > 1.2
        \<and> row_market_state (last rows) = TRENDING)
      \<and> (row_rsi (last rows) < 40
        \<and> row_close (last rows) < row_bb_lower (last rows)
        \<and> row_ema30 (last rows) > row_ema50 (last rows)
        \<and> row_volume_ratio (last rows) > 1.1)
      \<and> (\<exists>q. calculate_position_size cfg syms symbol balance SWING
                 (row_atr (last rows)) (row_close (last rows)) h = Some q \<and> q \<noteq> 0))"
proof -
  let ?c = "last rows"
  let ?mom = "row_momentum ?c > 0.05 \<and> row_rsi ?c < 70
        \<and> row_close ?c > row_bb_upper ?c \<and> row_ema30 ?c > row_ema50 ?c
        \<and> row_volume_ratio ?c > 1.2 \<and> row_market_state ?c = TRENDING"
  let ?swing = "row_rsi ?c < 40 \<and> row_close ?c < row_bb_lower ?c
        \<and> row_ema30 ?c > row_ema50 ?c \<and> row_volume_ratio ?c > 1.1"
  let ?size = "\<lambda>st. calculate_position_size cfg syms symbol balance st
                 (row_atr ?c) (row_close ?c) h"
  let ?g = "generate_signal cfg syms sys (Some rows) symbol balance h"
  have known: "\<exists>sc. map_of syms symbol = Some sc" if "?size st = Some q" for st q
    using calculate_position_size_SomeD [OF that] by blast
  have len: "\<not> length rows < 2" using assms(3) by simp
  define mom where "mom \<longleftrightarrow> ?mom"
  define swing where "swing \<longleftrightarrow> ?swing"
  have body: "?g =
      (case ?size (if mom then MOMENTUM else SWING) of
         None \<Rightarrow> None
       | Some qty \<Rightarrow>
           if qty = 0 then None
           else (case map_of syms symbol of
                   None \<Rightarrow> None
                 | Some sc \<Rightarrow>
                     if mom then
                       Some \<lparr> signal_symbol = symbol, signal_side = ''BUY'',
                         signal_type = MOMENTUM, signal_size = qty,
                         signal_price = row_close ?c,
                         signal_stop_loss = row_close ?c - stop_multiplier sc MOMENTUM * row_atr ?c,
                         signal_take_profit = row_close ?c + profit_multiplier sc MOMENTUM * row_atr ?c \<rparr>
                     else if swing then
                       Some \<lparr> signal_symbol = symbol, signal_side = ''BUY'',
                         signal_type = SWING, signal_size = qty,
                         signal_price = row_close ?c,
                         signal_stop_loss = row_close ?c - stop_multiplier sc SWING * row_atr ?c,
                         signal_take_profit = row_close ?c + profit_multiplier sc SWING * row_atr ?c \<rparr>
                     else None))"
    unfolding mom_def swing_def
    by (simp only: generate_signal_def system_guard_def Let_def option.case
          assms(1,2,4) len if_False)
  have main:
    "((\<exists>s. ?g = Some s \<and> signal_type s = MOMENTUM)
        \<longleftrightarrow> mom \<and> (\<exists>q. ?size MOMENTUM = Some q \<and> q \<noteq> 0))
     \<and> ((\<exists>s. ?g = Some s \<and> signal_type s = SWING)
        \<longleftrightarrow> \<not> mom \<and> swing \<and> (\<exists>q. ?size SWING = Some q \<and> q \<noteq> 0))"
  proof (cases mom)
    case True
    show ?thesis
    proof (cases "?size MOMENTUM")
      case None
      with True body show ?thesis by simp
    next
      case (Some q)
      from known [OF Some] obtain sc where "map_of syms symbol = Some sc" ..
      with True Some body show ?thesis by simp
    qed
  next
    case False
    show ?thesis
    proof (cases "?size SWING")
      case None
      with False body show ?thesis by simp
    next
      case (Some q)
      from known [OF Some] obtain sc where "map_of syms symbol = Some sc" ..
      with False Some body show ?thesis by simp
    qed
  qed
  then show ?thesis
    unfolding mom_def swing_def .
qed

text \<open>
  The two scenarios of the specification: a trending row above the upper band gives a
  MOMENTUM signal, and a ranging row with an RSI of 35 below the lower band a SWING signal.
\<close>

theorem generate_signal_rules_witness:
  "(\<exists>s. generate_signal example_config example_symbols example_status
              (Some [example_row 50 (32 / 10) TRENDING, example_row 50 (32 / 10) TRENDING])
              ''ADAUSDT'' 100 None = Some s
          \<and> signal_type s = MOMENTUM)
   \<and> (\<exists>s. generate_signal example_config example_symbols example_status
              (Some [example_row 35 (27 / 10) RANGING, example_row 35 (27 / 10) RANGING])
              ''ADAUSDT'' 100 None = Some s
          \<and> signal_type s = SWING)"
proof (intro conjI)
  let ?m = "[example_row 50 (32 / 10) TRENDING, example_row 50 (32 / 10) TRENDING]"
  let ?s = "[example_row 35 (27 / 10) RANGING, example_row 35 (27 / 10) RANGING]"
  have guard: "\<not> memory_percent example_status > MEMORY_LIMIT example_config"
    "\<not> active_threads example_status > 15"
    by (simp_all add: example_status_def example_config_def)
  have m: "calculate_position_size example_config example_symbols ''ADAUSDT'' 100 MOMENTUM
      (row_atr (last ?m)) (row_close (last ?m)) None = Some (94401 / 10000)"
    by (simp add: position_size_eval example_row_def)
  have s: "calculate_position_size example_config example_symbols ''ADAUSDT'' 100 SWING
      (row_atr (last ?s)) (row_close (last ?s)) None = Some (548697 / 50000)"
    by (simp add: position_size_eval example_row_def)
  have em: "\<exists>q. calculate_position_size example_config example_symbols ''ADAUSDT'' 100
      MOMENTUM (row_atr (last ?m)) (row_close (last ?m)) None = Some q \<and> q \<noteq> 0"
    unfolding m by (rule exI [of _ "94401 / 10000"]) simp
  have es: "\<exists>q. calculate_position_size example_config example_symbols ''ADAUSDT'' 100
      SWING (row_atr (last ?s)) (row_close (last ?s)) None = Some q \<and> q \<noteq> 0"
    unfolding s by (rule exI [of _ "548697 / 50000"]) simp
  show "\<exists>s. generate_signal example_config example_symbols example_status (Some ?m)
              ''ADAUSDT'' 100 None = Some s \<and> signal_type s = MOMENTUM"
  proof (rule generate_signal_rules [THEN conjunct1, THEN iffD2])
    show "\<not> row_atr (last ?m) > np_mean (map row_atr ?m) * VOLATILITY_FACTOR example_config"
      by (simp add: example_row_def example_config_def np_mean_def)
    show "(row_momentum (last ?m) > 0.05 \<and> row_rsi (last ?m) < 70
        \<and> row_close (last ?m) > row_bb_upper (last ?m)
        \<and> row_ema30 (last ?m) > row_ema50 (last ?m)
        \<and> row_volume_ratio (last ?m) > 1.2
        \<and> row_market_state (last ?m) = TRENDING)
      \<and> (\<exists>q. calculate_position_size example_config example_symbols ''ADAUSDT'' 100 MOMENTUM
                 (row_atr (last ?m)) (row_close (last ?m)) None = Some q \<and> q \<noteq> 0)"
      using em by (simp add: example_row_def)
  qed (simp_all add: guard)
  show "\<exists>s. generate_signal example_config example_symbols example_status (Some ?s)
              ''ADAUSDT'' 100 None = Some s \<and> signal_type s = SWING"
  proof (rule generate_signal_rules [THEN conjunct2, THEN iffD2])
    show "\<not> row_atr (last ?s) > np_mean (map row_atr ?s) * VOLATILITY_FACTOR example_config"
      by (simp add: example_row_def example_config_def np_mean_def)
    show "\<not> (row_momentum (last ?s) > 0.05 \<and> row_rsi (last ?s) < 70
        \<and> row_close (last ?s) > row_bb_upper (last ?s)
        \<and> row_ema30 (last ?s) > row_ema50 (last ?s)
        \<and> row_volume_ratio (last ?s) > 1.2
        \<and> row_market_state (last ?s) = TRENDING)
      \<and> (row_rsi (last ?s) < 40
        \<and> row_close (last ?s) < row_bb_lower (last ?s)
        \<and> row_ema30 (last ?s) > row_ema50 (last ?s)
        \<and> row_volume_ratio (last ?s) > 1.1)
      \<and> (\<exists>q. calculate_position_size example_config example_symbols ''ADAUSDT'' 100 SWING
                 (row_atr (last ?s)) (row_close (last ?s)) None = Some q \<and> q \<noteq> 0)"
      using es by (simp add: example_row_def)
  qed (simp_all add: guard)
qed

section \<open>Properties of the order manager\<close>

text \<open>
  Claim C1. Let the price be available and non-zero and the divisors (the signal's price
  and the leverage, which \<^verbatim>\<open>validate_config\<close> keeps between 1 and 5) be non-zero. If the
  slippage is above \<^verbatim>\<open>MAX_SLIPPAGE\<close>, or the required margin above 80 percent of the
  account balance, or the number of open managed orders at or above
  \<^verbatim>\<open>MAX_OPEN_ORDERS\<close>, then the pre-execution check fails and \<open>execute_order\<close> returns
  \<^verbatim>\<open>False\<close> (or \<^verbatim>\<open>None\<close>, when the resource guard stops it before the check), sends no
  request, and leaves the managed-order mapping and the trade history as they were.
\<close>

theorem execute_order_check_failure:
  assumes "get_current_price ex (signal_symbol sig) = Some current_price"
    and "current_price \<noteq> 0" and "signal_price sig \<noteq> 0" and "LEVERAGE cfg \<noteq> 0"
    and "\<bar>current_price - signal_price sig\<bar> / signal_price sig > MAX_SLIPPAGE cfg
         \<or> signal_size sig * current_price / LEVERAGE cfg > get_account_balance cfg ex * 0.8
         \<or> int (length (open_orders om)) \<ge> MAX_OPEN_ORDERS cfg"
  shows "pre_execution_check cfg ex om sig = Inr False
    \<and> execute_order cfg sys ex om sig =
        (Inr (if memory_percent sys > MEMORY_LIMIT cfg \<or> active_threads sys > 15
              then None else Some False), om, [])"
proof -
  have check: "pre_execution_check cfg ex om sig = Inr False"
    using assms by (auto simp: pre_execution_check_def Let_def)
  then show ?thesis
    by (simp add: execute_order_def system_guard_def)
qed

text \<open>
  The scenario of the specification: the current price is 5 percent above the signal's
  price and the maximum slippage is 1 percent.
\<close>

theorem execute_order_check_failure_witness:
  "get_current_price (example_exchange 105) (signal_symbol example_signal) = Some 105
   \<and> (105 :: real) \<noteq> 0 \<and> signal_price example_signal \<noteq> 0 \<and> LEVERAGE example_config \<noteq> 0
   \<and> \<bar>105 - signal_price example_signal\<bar> / signal_price example_signal
        > MAX_SLIPPAGE example_config
   \<and> execute_order example_config example_status (example_exchange 105) example_manager
        example_signal = (Inr (Some False), example_manager, [])"
  using execute_order_check_failure [of "example_exchange 105" example_signal 105
      example_config example_manager example_status]
  by (simp add: get_current_price_def example_exchange_def example_signal_def
        example_config_def example_status_def)

text \<open>
  The loop invariant of \<open>monitor_loop\<close>, by induction along its recursion: whatever the
  clock shows when a round starts, the entry is gone at the end, and the history and the
  requests sent are those of the state the loop ends in.
\<close>

lemma monitor_loop_terminal:
  "case monitor_loop cfg env order_id sig start_time now om of
     (r, om', sent) \<Rightarrow>
       open_orders om' = AList.delete order_id (open_orders om)
       \<and> (case r of
             Filled \<Rightarrow> (\<exists>t. trade_history om' = trade_history om @ [t]) \<and> sent = []
           | Canceled \<Rightarrow> trade_history om' = trade_history om \<and> sent = []
           | TimedOut \<Rightarrow> trade_history om' = trade_history om
               \<and> sent = [CancelOrder (TRADING_TYPE cfg) (signal_symbol sig) order_id])"
proof (induction cfg env order_id sig start_time now om rule: monitor_loop.induct)
  case (1 cfg env order_id sig start_time now om)
  show ?case
  proof (cases "now - start_time < 120")
    case False
    then show ?thesis
      by (subst monitor_loop.simps) simp
  next
    case True
    note IH = "1.IH" [OF True refl]
    note IH' = "1.IH" [OF True]
    show ?thesis
    proof (cases "poll env now")
      case RequestFailed
      with True IH(1) show ?thesis
        by (subst monitor_loop.simps) (simp add: Let_def)
    next
      case (Status st)
      show ?thesis
      proof (cases "status st = ''FILLED''")
        case filled: True
        show ?thesis
        proof (cases "executedQty st")
          case None
          with True Status filled IH' show ?thesis
            by (subst monitor_loop.simps) (simp add: Let_def)
        next
          case qty: (Some q)
          show ?thesis
          proof (cases "avgPrice st")
            case None
            with True Status filled qty IH' show ?thesis
              by (subst monitor_loop.simps) (simp add: Let_def)
          next
            case (Some p)
            with True Status filled qty show ?thesis
              by (subst monitor_loop.simps) (simp add: Let_def)
          qed
        qed
      next
        case not_filled: False
        show ?thesis
        proof (cases "status st = ''CANCELED''")
          case True
          with \<open>now - start_time < 120\<close> Status not_filled show ?thesis
            by (subst monitor_loop.simps) (simp add: Let_def)
        next
          case False
          with True Status not_filled IH' show ?thesis
            by (subst monitor_loop.simps) (simp add: Let_def)
        qed
      qed
    qed
  qed
qed

text \<open>
  Claim C2. For every order, signal, starting time, state of the order manager and
  behaviour of the exchange, \<open>monitor_order\<close> returns, in exactly one of the three
  terminal states. In each of them the managed-order mapping afterwards is the one before
  without the order's entry. A filled order adds one record to the trade history and
  returns \<^verbatim>\<open>True\<close>; a canceled or timed-out order leaves the history as it was and
  returns \<^verbatim>\<open>False\<close>; the cancel request is sent exactly in the timed-out case.
\<close>

theorem monitor_order_terminal:
  "case monitor_order cfg env order_id sig start_time om of
     (r, om', sent) \<Rightarrow>
       (r = Filled \<or> r = Canceled \<or> r = TimedOut)
       \<and> open_orders om' = AList.delete order_id (open_orders om)
       \<and> order_id \<notin> fst ` set (open_orders om')
       \<and> (case r of
             Filled \<Rightarrow> returned r \<and> (\<exists>t. trade_history om' = trade_history om @ [t])
               \<and> sent = []
           | Canceled \<Rightarrow> \<not> returned r \<and> trade_history om' = trade_history om \<and> sent = []
           | TimedOut \<Rightarrow> \<not> returned r \<and> trade_history om' = trade_history om
               \<and> sent = [CancelOrder (TRADING_TYPE cfg) (signal_symbol sig) order_id])"
proof -
  obtain r om' sent where
    res: "monitor_loop cfg env order_id sig start_time start_time om = (r, om', sent)"
    by (cases "monitor_loop cfg env order_id sig start_time start_time om") auto
  from monitor_loop_terminal [where cfg = cfg and env = env and order_id = order_id
      and sig = sig and start_time = start_time and now = start_time and om = om] res
  have del: "open_orders om' = AList.delete order_id (open_orders om)"
    and hist: "case r of
             Filled \<Rightarrow> (\<exists>t. trade_history om' = trade_history om @ [t]) \<and> sent = []
           | Canceled \<Rightarrow> trade_history om' = trade_history om \<and> sent = []
           | TimedOut \<Rightarrow> trade_history om' = trade_history om
               \<and> sent = [CancelOrder (TRADING_TYPE cfg) (signal_symbol sig) order_id]"
    by simp_all
  have gone: "order_id \<notin> fst ` set (open_orders om')"
    unfolding del by (rule delete_notin_dom)
  show ?thesis
    using res del gone hist
    by (cases r) (simp_all add: monitor_order_def returned_def)
qed

lemmas monitor_eval =
  monitor_order_def monitor_loop.simps example_monitor_def example_manager_def
  example_config_def example_signal_def Let_def

text \<open>
  Three runs from a state that tracks order 12345: the exchange reports the order filled
  after a minute of failed requests, reports it canceled, or never reports a terminal
  status, so that the two minutes pass.
\<close>

theorem monitor_order_terminal_witness:
  "fst (monitor_order example_config (example_monitor ''FILLED'') (IntKey 12345)
          example_signal 1700000000 example_manager) = Filled
   \<and> open_orders (fst (snd (monitor_order example_config (example_monitor ''FILLED'')
          (IntKey 12345) example_signal 1700000000 example_manager))) = []
   \<and> fst (monitor_order example_config (example_monitor ''CANCELED'') (IntKey 12345)
          example_signal 1700000000 example_manager) = Canceled
   \<and> open_orders (fst (snd (monitor_order example_config (example_monitor ''CANCELED'')
          (IntKey 12345) example_signal 1700000000 example_manager))) = []
   \<and> fst (monitor_order example_config (example_monitor ''NEW'') (IntKey 12345)
          example_signal 1700000000 example_manager) = TimedOut
   \<and> open_orders (fst (snd (monitor_order example_config (example_monitor ''NEW'')
          (IntKey 12345) example_signal 1700000000 example_manager))) = []"
  using monitor_order_terminal [where cfg = example_config
      and env = "example_monitor ''FILLED''" and order_id = "IntKey 12345"
      and sig = example_signal and start_time = 1700000000 and om = example_manager]
  by (simp add: monitor_eval)

section \<open>Properties of the recovery store\<close>

lemmas recovery_eval =
  load_recovery_state_def save_recovery_state_def example_config_def example_account_def
  example_manager_def example_signal_def example_trade_def active_positions_def
  py_of_open_orders_def py_of_managed_order_def py_of_signal_def py_of_exchange_order_def
  py_of_key_def py_of_trade_def py_of_config_def py_of_trading_type_def py_of_strategy_def
  json_key_def str_int_def digits.simps py_dict_def py_get_def py_number_def
  py_slice_from_def Let_def

text \<open>
  What does hold of the pair, for every state of the order manager: without a file, or
  with a snapshot older than an hour, the load returns nothing; within the hour it returns
  a state whose trade history is the list that was saved, the last fifty trades.
\<close>

lemma json_round_trip_trade:
  "json_load (json_dump (py_of_trade t)) = py_of_trade t"
  by (cases "trade_pnl t"; cases "trade_signal_type t")
     (simp_all add: py_of_trade_def py_of_strategy_def py_dict_def json_key_def)

lemma load_recovery_state_missing:
  "load_recovery_state now Missing = None"
  by (simp add: load_recovery_state_def)

lemma load_after_save:
  assumes "active_positions cfg acct = Some positions"
    and "open_orders_reply acct = Some active_orders"
  shows "load_recovery_state now (save_recovery_state cfg acct saved_at om file) =
           (if now - saved_at > 3600 then None
            else Some (json_load (json_dump
              (PyDict [(StrKey ''positions'', PyList positions),
                       (StrKey ''orders'', active_orders),
                       (StrKey ''open_orders'', py_of_open_orders (open_orders om)),
                       (StrKey ''trade_history'',
                          PyList (map py_of_trade (py_slice_from (- 50) (trade_history om)))),
                       (StrKey ''timestamp'', PyFloat saved_at),
                       (StrKey ''config'', py_of_config cfg),
                       (StrKey ''trading_type'', py_of_trading_type (TRADING_TYPE cfg))]))))"
  using assms
  by (simp add: load_recovery_state_def save_recovery_state_def Let_def py_get_def
        py_number_def py_dict_def json_key_def)

lemma load_after_save_trade_history:
  assumes "active_positions cfg acct = Some positions"
    and "open_orders_reply acct = Some active_orders"
    and "\<not> now - saved_at > 3600"
  shows "\<exists>state. load_recovery_state now (save_recovery_state cfg acct saved_at om file)
             = Some state
           \<and> py_get state ''trade_history''
             = Some (PyList (map py_of_trade (py_slice_from (- 50) (trade_history om))))"
  unfolding load_after_save [OF assms(1,2)]
  using assms(3)
  by (simp add: py_get_def py_dict_def json_key_def comp_def json_round_trip_trade)

text \<open>
  Claim C3 at a concrete state. The order manager tracks one order under the integer
  identifier 12345 and has one trade in its history; the state is saved at time
  1700000000 and loaded ten seconds later. The load returns a state, and its trade history
  is the one saved, but its managed-order mapping has the string \<^verbatim>\<open>'12345'\<close> as key and
  is not the mapping that was saved.
\<close>

theorem recovery_round_trip_changes_keys:
  "(case load_recovery_state 1700000010
           (save_recovery_state example_config example_account 1700000000
              example_manager Missing) of
      None \<Rightarrow> False
    | Some state \<Rightarrow>
        py_get state ''trade_history''
          = Some (PyList (map py_of_trade (trade_history example_manager)))
        \<and> py_get state ''open_orders''
          = Some (PyDict [(StrKey ''12345'',
                     py_of_managed_order (snd (hd (open_orders example_manager))))])
        \<and> py_get state ''open_orders''
          \<noteq> Some (py_of_open_orders (open_orders example_manager)))"
  by (simp add: recovery_eval)

end
